theory Spec2Isabelle
  imports Complex_Main "HOL-Library.Sublist"
begin

section \<open>Values of the prediction service\<close>

text \<open>
  The development embeds \<^verbatim>\<open>backend/ml/predict.py\<close>, the request-time
  recommendation engine. Python floats are read as real numbers: rounding and
  overflow are not part of the model. The special values of a float column
  that the program can meet or produce are kept apart from the finite ones: a
  missing field of the catalog file is \<open>NaN\<close>, and a division by zero inside a
  column gives an infinity or \<open>NaN\<close> and never raises. A text cell is \<open>Str\<close>.
\<close>

datatype cell = Num real | PInf | NInf | NaN | Str string

text \<open>
  A request is the value \<^verbatim>\<open>json.loads\<close> returns: \<open>JObj\<close> holds the
  items of a dict (its keys distinct), \<open>JInt\<close> and \<open>JFloat\<close> the two number
  types of Python.
\<close>

datatype json =
    JNull
  | JBool bool
  | JInt int
  | JFloat real
  | JStr string
  | JArr "json list"
  | JObj "(string \<times> json) list"

text \<open>
  The exceptions the program and its libraries can raise, all of them
  instances of \<^verbatim>\<open>Exception\<close>. The exit of the process by
  \<^verbatim>\<open>sys.exit\<close> is kept apart from them, in the outcomes below.
\<close>

datatype error =
    KeyError string
  | TypeError
  | AttributeError
  | ValueError
  | IndexError
  | FileNotFoundError string
  | JSONDecodeError string
  | OtherError string

definition bind_err :: "error + 'a \<Rightarrow> ('a \<Rightarrow> error + 'b) \<Rightarrow> error + 'b" where
  "bind_err m f = (case m of Inl e \<Rightarrow> Inl e | Inr x \<Rightarrow> f x)"

fun collect :: "(error + 'a) list \<Rightarrow> error + 'a list" where
  "collect [] = Inr []"
| "collect (m # ms) =
     (case m of
        Inl e \<Rightarrow> Inl e
      | Inr x \<Rightarrow> (case collect ms of Inl e \<Rightarrow> Inl e | Inr xs \<Rightarrow> Inr (x # xs)))"

subsection \<open>Data frames\<close>

text \<open>
  A pandas frame: the names of its columns, in order, and its rows, in order.
  A row gives each column's cell; a cell the row does not give reads as
  \<open>NaN\<close>, which is how pandas holds an absent value.
\<close>

type_synonym row = "string \<rightharpoonup> cell"

record frame =
  columns :: "string list"
  rows :: "row list"

definition cell_at :: "row \<Rightarrow> string \<Rightarrow> cell" where
  "cell_at r col = (case r col of Some c \<Rightarrow> c | None \<Rightarrow> NaN)"

text \<open>
  Comparing a column with a number, cell by cell. \<^verbatim>\<open>==\<close> never raises;
  an ordering comparison of a text cell with a number raises
  \<^verbatim>\<open>TypeError\<close>. Every comparison with \<open>NaN\<close> is false.
\<close>

fun cell_eq :: "cell \<Rightarrow> real \<Rightarrow> bool" where
  "cell_eq (Num v) x = (v = x)"
| "cell_eq _ x = False"

fun cell_le :: "cell \<Rightarrow> real \<Rightarrow> error + bool" where
  "cell_le (Num v) x = Inr (v \<le> x)"
| "cell_le PInf x = Inr False"
| "cell_le NInf x = Inr True"
| "cell_le NaN x = Inr False"
| "cell_le (Str s) x = Inl TypeError"

fun cell_lt :: "cell \<Rightarrow> real \<Rightarrow> error + bool" where
  "cell_lt (Num v) x = Inr (v < x)"
| "cell_lt PInf x = Inr False"
| "cell_lt NInf x = Inr True"
| "cell_lt NaN x = Inr False"
| "cell_lt (Str s) x = Inl TypeError"

fun cell_gt :: "cell \<Rightarrow> real \<Rightarrow> error + bool" where
  "cell_gt (Num v) x = Inr (v > x)"
| "cell_gt PInf x = Inr True"
| "cell_gt NInf x = Inr False"
| "cell_gt NaN x = Inr False"
| "cell_gt (Str s) x = Inl TypeError"

text \<open>
  \<^verbatim>\<open>df[col]\<close> raises \<^verbatim>\<open>KeyError\<close> when the frame has no such column;
  \<^verbatim>\<open>df[col] < x\<close> is then the column of the comparison's results.
\<close>

definition column :: "frame \<Rightarrow> string \<Rightarrow> error + cell list" where
  "column df col =
     (if col \<in> set (columns df) then Inr (map (\<lambda>r. cell_at r col) (rows df))
      else Inl (KeyError col))"

definition compare_column ::
    "(cell \<Rightarrow> real \<Rightarrow> error + bool) \<Rightarrow> frame \<Rightarrow> string \<Rightarrow> real \<Rightarrow> error + bool list" where
  "compare_column cmp df col x =
     bind_err (column df col) (\<lambda>cs. collect (map (\<lambda>c. cmp c x) cs))"

text \<open>\<^verbatim>\<open>df[mask]\<close>: the rows whose entry of the mask is true, in order.\<close>

definition select_rows :: "frame \<Rightarrow> bool list \<Rightarrow> frame" where
  "select_rows df keep = df\<lparr>rows := map fst (filter snd (zip (rows df) keep))\<rparr>"

subsection \<open>Reading a request\<close>

text \<open>\<^verbatim>\<open>d.get(key, default)\<close>; only a dict has the method.\<close>

fun dict_get :: "json \<Rightarrow> string \<Rightarrow> json \<Rightarrow> error + json" where
  "dict_get (JObj kvs) k d = Inr (case map_of kvs k of Some v \<Rightarrow> v | None \<Rightarrow> d)"
| "dict_get _ k d = Inl AttributeError"

text \<open>
  \<^verbatim>\<open>s in container\<close> for a text \<open>s\<close>: an element of a list, a substring of
  a text, a key of a dict; a number, a boolean and \<^verbatim>\<open>None\<close> are not
  containers.
\<close>

fun py_in :: "string \<Rightarrow> json \<Rightarrow> error + bool" where
  "py_in s (JArr xs) = Inr (JStr s \<in> set xs)"
| "py_in s (JStr t) = Inr (sublist s t)"
| "py_in s (JObj kvs) = Inr (s \<in> fst ` set kvs)"
| "py_in s _ = Inl TypeError"

text \<open>\<^verbatim>\<open>a in r or b in r\<close>: the second test runs only when the first is false.\<close>

definition in_either :: "string \<Rightarrow> string \<Rightarrow> json \<Rightarrow> error + bool" where
  "in_either a b r = bind_err (py_in a r) (\<lambda>found. if found then Inr True else py_in b r)"

text \<open>\<^verbatim>\<open>x / d\<close> for a request value \<open>x\<close>; a boolean counts as 0 or 1.\<close>

fun py_truediv :: "json \<Rightarrow> real \<Rightarrow> error + real" where
  "py_truediv (JInt i) d = Inr (real_of_int i / d)"
| "py_truediv (JFloat x) d = Inr (x / d)"
| "py_truediv (JBool b) d = Inr ((if b then 1 else 0) / d)"
| "py_truediv _ d = Inl TypeError"

section \<open>The constraint filter\<close>

text \<open>
  \<^verbatim>\<open>filter_by_user_constraints(df, user_profile)\<close>. The budget is divided
  before the restrictions are looked at. Each of the three restriction blocks
  tests two fixed texts for membership, and filters only when the flag column
  exists; the budget filter runs whenever the cost column exists.
\<close>

definition max_cost_per_serving :: "json \<Rightarrow> error + real" where
  "max_cost_per_serving user_profile =
     bind_err (dict_get user_profile ''weeklyBudget'' (JInt 100)) (\<lambda>budget.
     py_truediv budget 21)"

definition restrict_flag :: "string \<Rightarrow> string \<Rightarrow> string \<Rightarrow> json \<Rightarrow> frame \<Rightarrow> error + frame" where
  "restrict_flag label slug col restrictions df =
     bind_err (in_either label slug restrictions) (\<lambda>wanted.
     if wanted \<and> col \<in> set (columns df)
     then Inr (select_rows df (map (\<lambda>r. cell_eq (cell_at r col) 1) (rows df)))
     else Inr df)"

definition filter_by_user_constraints :: "frame \<Rightarrow> json \<Rightarrow> error + frame" where
  "filter_by_user_constraints df user_profile =
     bind_err (dict_get user_profile ''dietaryRestrictions'' (JArr [])) (\<lambda>restrictions.
     bind_err (max_cost_per_serving user_profile) (\<lambda>max_cost.
     bind_err (restrict_flag ''Vegan'' ''vegan'' ''is_vegan'' restrictions df) (\<lambda>df1.
     bind_err (restrict_flag ''Gluten Free'' ''gluten-free'' ''is_glutenfree'' restrictions df1) (\<lambda>df2.
     bind_err (restrict_flag ''Nut Allergy'' ''nut-free'' ''is_nutfree'' restrictions df2) (\<lambda>df3.
     if ''cost_per_serving'' \<in> set (columns df3)
     then bind_err (compare_column cell_le df3 ''cost_per_serving'' max_cost) (\<lambda>keep.
          Inr (select_rows df3 keep))
     else Inr df3)))))"

section \<open>Feature columns\<close>

text \<open>
  The block of \<^verbatim>\<open>predict_top_meals\<close> that makes sure every feature column
  exists (``Ensure all required columns exist''), with the arithmetic on
  columns it uses. Adding two text cells concatenates them; every other use
  of a text cell in \<^verbatim>\<open>+\<close> or \<^verbatim>\<open>/\<close> raises \<^verbatim>\<open>TypeError\<close>. A
  column divided by a column never raises: a zero divisor gives an infinity
  of the dividend's sign, or \<open>NaN\<close> for a zero dividend (the divisors of this
  program are sums \<open>x + 1\<close>, whose zero is the positive one).
\<close>

fun cell_add :: "cell \<Rightarrow> cell \<Rightarrow> error + cell" where
  "cell_add (Str a) (Str b) = Inr (Str (a @ b))"
| "cell_add (Str a) _ = Inl TypeError"
| "cell_add _ (Str b) = Inl TypeError"
| "cell_add NaN _ = Inr NaN"
| "cell_add _ NaN = Inr NaN"
| "cell_add (Num a) (Num b) = Inr (Num (a + b))"
| "cell_add (Num a) PInf = Inr PInf"
| "cell_add (Num a) NInf = Inr NInf"
| "cell_add PInf (Num b) = Inr PInf"
| "cell_add NInf (Num b) = Inr NInf"
| "cell_add PInf PInf = Inr PInf"
| "cell_add NInf NInf = Inr NInf"
| "cell_add PInf NInf = Inr NaN"
| "cell_add NInf PInf = Inr NaN"

fun cell_div :: "cell \<Rightarrow> cell \<Rightarrow> error + cell" where
  "cell_div (Str a) _ = Inl TypeError"
| "cell_div _ (Str b) = Inl TypeError"
| "cell_div NaN _ = Inr NaN"
| "cell_div _ NaN = Inr NaN"
| "cell_div (Num a) (Num b) =
     Inr (if b \<noteq> 0 then Num (a / b) else if a > 0 then PInf else if a < 0 then NInf else NaN)"
| "cell_div (Num a) _ = Inr (Num 0)"
| "cell_div PInf (Num b) = Inr (if b < 0 then NInf else PInf)"
| "cell_div NInf (Num b) = Inr (if b < 0 then PInf else NInf)"
| "cell_div _ _ = Inr NaN"

definition numerical_features :: "string list" where
  "numerical_features =
     [''calories'', ''protein_g'', ''fat_g'', ''carbs_g'', ''fiber_g'', ''sugars_g'',
      ''sodium_mg'', ''vitamin_a_iu'', ''vitamin_c_mg'', ''calcium_mg'', ''iron_mg'',
      ''potassium_mg'', ''magnesium_mg'', ''zinc_mg'', ''phosphorus_mg'',
      ''cost_per_serving'', ''nutrient_density'', ''sugar_to_carb_ratio'']"

definition categorical_features :: "string list" where
  "categorical_features = [''food_category'']"

definition binary_features :: "string list" where
  "binary_features = [''is_glutenfree'', ''is_nutfree'', ''is_vegan'']"

text \<open>
  \<^verbatim>\<open>df.get(col, d)\<close>: the column, or the number \<open>d\<close> where the frame has
  none; in the arithmetic that follows a number stands for a column of its
  copies.
\<close>

definition frame_get :: "frame \<Rightarrow> string \<Rightarrow> real \<Rightarrow> cell list" where
  "frame_get df col d =
     (if col \<in> set (columns df) then map (\<lambda>r. cell_at r col) (rows df)
      else replicate (length (rows df)) (Num d))"

text \<open>
  \<^verbatim>\<open>df[col] = values\<close>: a new column is appended to the column names; the
  rows take the values in order. \<^verbatim>\<open>df[col] = c\<close> for a single value \<open>c\<close>
  gives it to every row.
\<close>

definition set_column :: "frame \<Rightarrow> string \<Rightarrow> cell list \<Rightarrow> frame" where
  "set_column df col cs =
     \<lparr>columns = (if col \<in> set (columns df) then columns df else columns df @ [col]),
      rows = map2 (\<lambda>r c. r(col \<mapsto> c)) (rows df) cs\<rparr>"

definition set_scalar :: "frame \<Rightarrow> string \<Rightarrow> cell \<Rightarrow> frame" where
  "set_scalar df col c = set_column df col (replicate (length (rows df)) c)"

fun fold_err :: "('a \<Rightarrow> 'b \<Rightarrow> error + 'b) \<Rightarrow> 'a list \<Rightarrow> 'b \<Rightarrow> error + 'b" where
  "fold_err f [] s = Inr s"
| "fold_err f (x # xs) s = (case f x s of Inl e \<Rightarrow> Inl e | Inr s' \<Rightarrow> fold_err f xs s')"

definition fill_numerical :: "string \<Rightarrow> frame \<Rightarrow> error + frame" where
  "fill_numerical col df =
     (if col \<in> set (columns df) then Inr df
      else if col = ''nutrient_density'' then
        bind_err (collect (map2 cell_add (frame_get df ''protein_g'' 0) (frame_get df ''fiber_g'' 0)))
          (\<lambda>above.
        bind_err (collect (map (\<lambda>c. cell_add c (Num 1)) (frame_get df ''calories'' 1))) (\<lambda>below.
        bind_err (collect (map2 cell_div above below)) (\<lambda>cs.
        Inr (set_column df col cs))))
      else if col = ''sugar_to_carb_ratio'' then
        bind_err (collect (map (\<lambda>c. cell_add c (Num 1)) (frame_get df ''carbs_g'' 1))) (\<lambda>below.
        bind_err (collect (map2 cell_div (frame_get df ''sugars_g'' 0) below)) (\<lambda>cs.
        Inr (set_column df col cs)))
      else Inr (set_scalar df col (Num 0)))"

definition fill_categorical :: "string \<Rightarrow> frame \<Rightarrow> frame" where
  "fill_categorical col df =
     (if col \<in> set (columns df) then df else set_scalar df col (Str ''unknown''))"

definition fill_binary :: "string \<Rightarrow> frame \<Rightarrow> frame" where
  "fill_binary col df = (if col \<in> set (columns df) then df else set_scalar df col (Num 0))"

definition ensure_columns :: "frame \<Rightarrow> error + frame" where
  "ensure_columns df =
     bind_err (fold_err fill_numerical numerical_features df) (\<lambda>df1.
     Inr (fold fill_binary binary_features (fold fill_categorical categorical_features df1)))"

text \<open>\<^verbatim>\<open>df[cols]\<close> for a list of names: \<^verbatim>\<open>KeyError\<close> when one is missing.\<close>

definition select_columns :: "frame \<Rightarrow> string list \<Rightarrow> error + frame" where
  "select_columns df cols =
     (case filter (\<lambda>c. c \<notin> set (columns df)) cols of
        [] \<Rightarrow> Inr \<lparr>columns = cols, rows = map (\<lambda>r. r |` set cols) (rows df)\<rparr>
      | c # _ \<Rightarrow> Inl (KeyError c))"

section \<open>The non-negative shift\<close>

text \<open>
  \<^verbatim>\<open>X_transformed - X_transformed.min() + 1e-9\<close> on the matrix the
  preprocessor returns, a list of rows of finite numbers. The minimum is
  taken over all entries of the matrix at hand; numpy raises
  \<^verbatim>\<open>ValueError\<close> for the minimum of a matrix with no entry.
\<close>

definition epsilon :: real where
  "epsilon = 1 / 10 ^ 9"

definition matrix_min :: "real list list \<Rightarrow> error + real" where
  "matrix_min X = (case concat X of [] \<Rightarrow> Inl ValueError | x # xs \<Rightarrow> Inr (fold min xs x))"

definition nonneg_shift :: "real list list \<Rightarrow> error + real list list" where
  "nonneg_shift X = bind_err (matrix_min X) (\<lambda>m. Inr (map (map (\<lambda>x. x - m + epsilon)) X))"

section \<open>The goal adjuster\<close>

text \<open>
  \<^verbatim>\<open>adjust_for_goals(probs, df, user_profile)\<close>. \<^verbatim>\<open>probs[keep] *= m\<close>
  multiplies the entries the boolean column selects; numpy raises
  \<^verbatim>\<open>IndexError\<close> when the column's length is not the vector's.
  \<^verbatim>\<open>np.clip(x, 0, 1)\<close> is the minimum with 1 of the maximum with 0.
\<close>

definition multiply_where :: "real list \<Rightarrow> bool list \<Rightarrow> real \<Rightarrow> error + real list" where
  "multiply_where probs keep m =
     (if length keep \<noteq> length probs then Inl IndexError
      else Inr (map2 (\<lambda>p k. if k then p * m else p) probs keep))"

definition np_clip :: "real \<Rightarrow> real \<Rightarrow> real \<Rightarrow> real" where
  "np_clip x lo hi = min (max x lo) hi"

definition adjust_for_goals :: "real list \<Rightarrow> frame \<Rightarrow> json \<Rightarrow> error + real list" where
  "adjust_for_goals probs df user_profile =
     bind_err (dict_get user_profile ''primaryGoal'' (JStr [])) (\<lambda>goal.
     bind_err
       (if goal = JStr ''Weight Loss'' then
          bind_err (compare_column cell_lt df ''calories'' 300) (\<lambda>low_cal.
          bind_err (compare_column cell_gt df ''protein_g'' 15) (\<lambda>high_protein.
          multiply_where probs (map2 (\<and>) low_cal high_protein) 1.2))
        else if goal = JStr ''Muscle Gain'' then
          bind_err (compare_column cell_gt df ''protein_g'' 20) (\<lambda>high_protein.
          multiply_where probs high_protein 1.3)
        else if goal = JStr ''Heart Health'' then
          bind_err (compare_column cell_lt df ''sodium_mg'' 500) (\<lambda>low_sodium.
          bind_err (compare_column cell_gt df ''fiber_g'' 5) (\<lambda>high_fiber.
          multiply_where probs (map2 (\<and>) low_sodium high_fiber) 1.2))
        else Inr probs)
       (\<lambda>adjusted_probs. Inr (map (\<lambda>p. np_clip p 0 1) adjusted_probs)))"

section \<open>Ranking and explanation\<close>

text \<open>
  \<^verbatim>\<open>np.argsort(probs)[::-1][:top_k]\<close>. The sort of numpy is a parameter: its
  result lists the positions of the vector in ascending order of their
  scores, and how it orders equal scores is its own affair. \<open>xs[:k]\<close> takes
  the first \<open>k\<close> entries, drops the last \<open>-k\<close> for a negative \<open>k\<close>, takes all
  for \<^verbatim>\<open>None\<close>, reads a boolean as 0 or 1 and raises
  \<^verbatim>\<open>TypeError\<close> for any other value.
\<close>

fun py_slice_to :: "'a list \<Rightarrow> json \<Rightarrow> error + 'a list" where
  "py_slice_to xs (JInt k) =
     Inr (if 0 \<le> k then take (nat k) xs else take (length xs - nat (- k)) xs)"
| "py_slice_to xs (JBool b) = Inr (take (if b then 1 else 0) xs)"
| "py_slice_to xs JNull = Inr xs"
| "py_slice_to xs _ = Inl TypeError"

definition top_indices :: "(real list \<Rightarrow> nat list) \<Rightarrow> real list \<Rightarrow> json \<Rightarrow> error + nat list" where
  "top_indices argsort probs top_k = py_slice_to (rev (argsort probs)) top_k"

text \<open>
  A reason keeps the value its text prints, a dietary tag is its label. The
  numbers of a recommendation are cells: \<^verbatim>\<open>float\<close> maps a float to itself.
  \<^verbatim>\<open>float\<close> of a text cell is taken to raise \<^verbatim>\<open>ValueError\<close>; the
  case of a text cell that spells a number is not told apart.
\<close>

datatype reason =
    HighProtein cell
  | HighFiber cell
  | LowCalorie cell
  | LowSugar cell
  | BudgetFriendly cell

record recommendation =
  name :: cell
  category :: cell
  fit_score :: real
  confidence :: string
  nutrition :: "(string \<times> cell) list"
  cost :: cell
  reasons :: "reason list"
  dietary_info :: "string list"

datatype response =
    NoEligible string
  | Ranked "recommendation list" json nat string json

fun recommendations :: "response \<Rightarrow> recommendation list" where
  "recommendations (NoEligible msg) = []"
| "recommendations (Ranked recs query n version goal) = recs"

text \<open>
  \<^verbatim>\<open>df.iloc[i]\<close>, \<^verbatim>\<open>probs[i]\<close>, \<^verbatim>\<open>food[col]\<close> and
  \<^verbatim>\<open>food.get(col, d)\<close> for a row \<open>food\<close> of the frame.
\<close>

definition iloc :: "frame \<Rightarrow> nat \<Rightarrow> error + row" where
  "iloc df i = (if i < length (rows df) then Inr (rows df ! i) else Inl IndexError)"

definition item :: "'a list \<Rightarrow> nat \<Rightarrow> error + 'a" where
  "item xs i = (if i < length xs then Inr (xs ! i) else Inl IndexError)"

definition row_item :: "frame \<Rightarrow> row \<Rightarrow> string \<Rightarrow> error + cell" where
  "row_item df food col =
     (if col \<in> set (columns df) then Inr (cell_at food col) else Inl (KeyError col))"

definition row_get :: "frame \<Rightarrow> row \<Rightarrow> string \<Rightarrow> cell \<Rightarrow> cell" where
  "row_get df food col d = (if col \<in> set (columns df) then cell_at food col else d)"

fun py_float :: "cell \<Rightarrow> error + cell" where
  "py_float (Str s) = Inl ValueError"
| "py_float c = Inr c"

definition reason_if ::
    "(cell \<Rightarrow> real \<Rightarrow> error + bool) \<Rightarrow> real \<Rightarrow> (cell \<Rightarrow> reason) \<Rightarrow> frame \<Rightarrow> row \<Rightarrow> string
      \<Rightarrow> error + reason list" where
  "reason_if cmp x mk df food col =
     bind_err (row_item df food col) (\<lambda>c.
     bind_err (cmp c x) (\<lambda>holds. Inr (if holds then [mk c] else [])))"

definition dietary_tag :: "frame \<Rightarrow> row \<Rightarrow> string \<Rightarrow> string \<Rightarrow> string list" where
  "dietary_tag df food col label =
     (if cell_eq (row_get df food col (Num 0)) 1 then [label] else [])"

definition float_item :: "frame \<Rightarrow> row \<Rightarrow> string \<Rightarrow> error + cell" where
  "float_item df food col = bind_err (row_item df food col) py_float"

definition confidence_of :: "real \<Rightarrow> string" where
  "confidence_of prob =
     (if prob > 0.8 then ''high'' else if prob > 0.6 then ''medium'' else ''moderate'')"

definition build_recommendation :: "frame \<Rightarrow> real list \<Rightarrow> nat \<Rightarrow> error + recommendation" where
  "build_recommendation df probs idx =
     bind_err (iloc df idx) (\<lambda>food.
     bind_err (item probs idx) (\<lambda>prob.
     bind_err (reason_if cell_gt 15 HighProtein df food ''protein_g'') (\<lambda>r1.
     bind_err (reason_if cell_gt 5 HighFiber df food ''fiber_g'') (\<lambda>r2.
     bind_err (reason_if cell_lt 200 LowCalorie df food ''calories'') (\<lambda>r3.
     bind_err (reason_if cell_lt 5 LowSugar df food ''sugars_g'') (\<lambda>r4.
     bind_err (reason_if cell_lt 2 BudgetFriendly df food ''cost_per_serving'') (\<lambda>r5.
     bind_err (row_item df food ''description'') (\<lambda>description.
     bind_err (float_item df food ''calories'') (\<lambda>calories.
     bind_err (float_item df food ''protein_g'') (\<lambda>protein.
     bind_err (float_item df food ''carbs_g'') (\<lambda>carbs.
     bind_err (float_item df food ''fat_g'') (\<lambda>fat.
     bind_err (float_item df food ''fiber_g'') (\<lambda>fiber.
     bind_err (float_item df food ''sugars_g'') (\<lambda>sugars.
     bind_err (float_item df food ''cost_per_serving'') (\<lambda>price.
     Inr \<lparr>name = description,
          category = row_get df food ''food_category'' (Str ''Unknown''),
          fit_score = prob,
          confidence = confidence_of prob,
          nutrition = [(''calories'', calories), (''protein'', protein), (''carbs'', carbs),
                       (''fat'', fat), (''fiber'', fiber), (''sugars'', sugars)],
          cost = price,
          reasons = r1 @ r2 @ r3 @ r4 @ r5,
          dietary_info = dietary_tag df food ''is_vegan'' ''Vegan''
                         @ dietary_tag df food ''is_glutenfree'' ''Gluten-free''
                         @ dietary_tag df food ''is_nutfree'' ''Nut-free''\<rparr>)))))))))))))))"

text \<open>
  The last part of \<^verbatim>\<open>predict_top_meals\<close>, from the ranking to the
  response it returns.
\<close>

definition rank_and_explain ::
    "(real list \<Rightarrow> nat list) \<Rightarrow> frame \<Rightarrow> real list \<Rightarrow> json \<Rightarrow> json \<Rightarrow> json \<Rightarrow> error + response" where
  "rank_and_explain argsort df probs top_k query user_profile =
     bind_err (top_indices argsort probs top_k) (\<lambda>top.
     bind_err (collect (map (build_recommendation df probs) top)) (\<lambda>recs.
     bind_err (dict_get user_profile ''primaryGoal'' (JStr ''General Health'')) (\<lambda>goal.
     Inr (Ranked recs query (length (rows df)) ''1.0'' goal))))"

section \<open>The process\<close>

text \<open>
  What the process does to the outside, in order: it reads standard input,
  opens a file, calls one of the three fitted artifacts, writes a document to
  standard output, writes to standard error, and exits. An error object on
  standard error is its fixed prefix and the exception whose text follows it.
  The serialisation of a document by \<^verbatim>\<open>json.dumps\<close> is not modelled: a
  document is the value handed to it.
\<close>

datatype event =
    ReadStdin
  | Load string
  | Transform
  | Select
  | Predict
  | Stdout response
  | StderrNotice string
  | StderrError string error
  | Exit int

text \<open>
  The outside of the process: whether standard input is a terminal and what
  it holds, the parser \<^verbatim>\<open>json.loads\<close>, what loading each of the six files
  gives (an exception, \<^verbatim>\<open>FileNotFoundError\<close> for an absent file, or its
  content) and the sort of numpy. A fitted artifact is the function it
  computes: the preprocessor's \<^verbatim>\<open>transform\<close>, the selector's
  \<^verbatim>\<open>transform\<close>, and the classifier's \<^verbatim>\<open>predict_proba(X)[:, 1]\<close>. A
  transform whose result would hold a \<open>NaN\<close> is one that fails.
\<close>

record world =
  stdin_isatty :: bool
  stdin_text :: string
  json_loads :: "string \<Rightarrow> error + json"
  rf_model_pkl :: "error + (real list list \<Rightarrow> error + real list)"
  preprocessor_pkl :: "error + (frame \<Rightarrow> error + real list list)"
  feature_selector_pkl :: "error + (real list list \<Rightarrow> error + real list list)"
  feature_names_json :: "error + json"
  processed_data_csv :: "error + frame"
  usda_foods_csv :: "error + frame"
  np_argsort :: "real list \<Rightarrow> nat list"

text \<open>
  A part of the program ends by returning a value, by raising an exception,
  or by \<^verbatim>\<open>sys.exit\<close>, whose \<^verbatim>\<open>SystemExit\<close> no handler of the
  program catches. It is run for what it did to the outside and how it ended.
\<close>

datatype 'a outcome = Return 'a | Raise error | SysExit int

type_synonym 'a traced = "event list \<times> 'a outcome"

fun lift :: "error + 'a \<Rightarrow> 'a outcome" where
  "lift (Inl e) = Raise e"
| "lift (Inr x) = Return x"

definition bind_tr :: "'a traced \<Rightarrow> ('a \<Rightarrow> 'b traced) \<Rightarrow> 'b traced" where
  "bind_tr m f =
     (case m of
        (t, Return x) \<Rightarrow> (case f x of (t', r) \<Rightarrow> (t @ t', r))
      | (t, Raise e) \<Rightarrow> (t, Raise e)
      | (t, SysExit n) \<Rightarrow> (t, SysExit n))"

definition pure_tr :: "error + 'a \<Rightarrow> 'a traced" where
  "pure_tr m = ([], lift m)"

definition effect :: "event \<Rightarrow> error + 'a \<Rightarrow> 'a traced" where
  "effect ev m = ([ev], lift m)"

text \<open>
  \<^verbatim>\<open>load_models\<close>: the four files in order; an absent file is reported on
  standard error and the process exits with status 1, any other exception is
  passed on.
\<close>

definition load_models ::
    "world \<Rightarrow> ((real list list \<Rightarrow> error + real list) \<times> (frame \<Rightarrow> error + real list list)
       \<times> (real list list \<Rightarrow> error + real list list) \<times> json) traced" where
  "load_models w =
     (case
        bind_tr (effect (Load ''rf_model.pkl'') (rf_model_pkl w)) (\<lambda>model.
        bind_tr (effect (Load ''preprocessor.pkl'') (preprocessor_pkl w)) (\<lambda>preprocessor.
        bind_tr (effect (Load ''feature_selector.pkl'') (feature_selector_pkl w)) (\<lambda>feature_selector.
        bind_tr (effect (Load ''feature_names.json'') (feature_names_json w)) (\<lambda>feature_info.
        ([], Return (model, preprocessor, feature_selector, feature_info))))))
      of
        (t, Raise (FileNotFoundError f)) \<Rightarrow>
          (t @ [StderrError ''Model files not found. Run train.py first. '' (FileNotFoundError f)],
           SysExit 1)
      | other \<Rightarrow> other)"

text \<open>
  \<^verbatim>\<open>load_food_database\<close>: the processed catalog, or the raw one when the
  processed one is absent.
\<close>

definition load_food_database :: "world \<Rightarrow> frame traced" where
  "load_food_database w =
     (case processed_data_csv w of
        Inl (FileNotFoundError f) \<Rightarrow>
          (case usda_foods_csv w of
             Inl (FileNotFoundError g) \<Rightarrow>
               ([Load ''processed_data.csv'', Load ''usda-foods.csv'',
                 StderrError ''Food database not found: '' (FileNotFoundError g)],
                SysExit 1)
           | other \<Rightarrow> ([Load ''processed_data.csv'', Load ''usda-foods.csv''], lift other))
      | other \<Rightarrow> ([Load ''processed_data.csv''], lift other))"

definition no_eligible_message :: string where
  "no_eligible_message =
     ''No foods match your dietary restrictions and budget. Try relaxing some constraints.''"

text \<open>The scoring lines of \<^verbatim>\<open>predict_top_meals\<close>, from the feature table to the raw scores.\<close>

definition infer ::
    "(frame \<Rightarrow> error + real list list) \<Rightarrow> (real list list \<Rightarrow> error + real list list)
      \<Rightarrow> (real list list \<Rightarrow> error + real list) \<Rightarrow> frame \<Rightarrow> real list traced" where
  "infer preprocessor feature_selector model df =
     bind_tr (pure_tr (select_columns df
        (numerical_features @ categorical_features @ binary_features))) (\<lambda>X.
     bind_tr (effect Transform (preprocessor X)) (\<lambda>X_transformed.
     bind_tr (pure_tr (nonneg_shift X_transformed)) (\<lambda>X_nonneg.
     bind_tr (effect Select (feature_selector X_nonneg)) (\<lambda>X_selected.
     effect Predict (model X_selected)))))"

text \<open>
  \<^verbatim>\<open>predict_top_meals\<close> loads the artifacts and the catalog and then
  serves the request; \<open>recommend\<close> is its body after the two loads.
\<close>

definition recommend ::
    "(real list \<Rightarrow> nat list) \<Rightarrow> (real list list \<Rightarrow> error + real list)
      \<Rightarrow> (frame \<Rightarrow> error + real list list) \<Rightarrow> (real list list \<Rightarrow> error + real list list)
      \<Rightarrow> frame \<Rightarrow> json \<Rightarrow> json \<Rightarrow> response traced" where
  "recommend argsort model preprocessor feature_selector food_db user_input top_k =
     bind_tr (pure_tr (dict_get user_input ''userProfile'' (JObj []))) (\<lambda>user_profile.
     bind_tr (pure_tr (dict_get user_input ''query'' (JStr []))) (\<lambda>query.
     bind_tr (pure_tr (filter_by_user_constraints food_db user_profile)) (\<lambda>eligible_foods.
     if length (rows eligible_foods) = 0 then ([], Return (NoEligible no_eligible_message))
     else
       bind_tr (pure_tr (ensure_columns eligible_foods)) (\<lambda>eligible.
       bind_tr (infer preprocessor feature_selector model eligible) (\<lambda>raw.
       bind_tr (pure_tr (adjust_for_goals raw eligible user_profile)) (\<lambda>probs.
       pure_tr (rank_and_explain argsort eligible probs top_k query user_profile)))))))"

definition predict_top_meals :: "world \<Rightarrow> json \<Rightarrow> json \<Rightarrow> response traced" where
  "predict_top_meals w user_input top_k =
     bind_tr (load_models w) (\<lambda>(model, preprocessor, feature_selector, feature_info).
     bind_tr (load_food_database w) (\<lambda>food_db.
     recommend (np_argsort w) model preprocessor feature_selector food_db user_input top_k))"

text \<open>
  \<^verbatim>\<open>main\<close>. On a terminal the built-in request is used, after a notice;
  otherwise standard input is read and parsed. The handlers of the
  \<^verbatim>\<open>try\<close> block catch the parser's exception and every other
  \<^verbatim>\<open>Exception\<close>; an exit is not theirs to catch.
\<close>

definition default_input :: json where
  "default_input =
     JObj [(''userProfile'',
              JObj [(''age'', JInt 30),
                    (''gender'', JStr ''Female''),
                    (''primaryGoal'', JStr ''Weight Loss''),
                    (''dietaryRestrictions'', JArr [JStr ''Vegan'']),
                    (''weeklyBudget'', JInt 75)]),
           (''query'', JStr ''healthy breakfast''),
           (''top_k'', JInt 5)]"

definition read_input :: "world \<Rightarrow> json traced" where
  "read_input w =
     (if stdin_isatty w
      then ([StderrNotice ''No input provided. Using test data...''], Return default_input)
      else effect ReadStdin (json_loads w (stdin_text w)))"

definition serve :: "world \<Rightarrow> json \<Rightarrow> unit traced" where
  "serve w user_input =
     bind_tr (pure_tr (dict_get user_input ''top_k'' (JInt 5))) (\<lambda>top_k.
     bind_tr (predict_top_meals w user_input top_k) (\<lambda>result.
     ([Stdout result], SysExit 0)))"

definition handle :: "unit traced \<Rightarrow> event list" where
  "handle m =
     (case m of
        (t, SysExit n) \<Rightarrow> t @ [Exit n]
      | (t, Raise (JSONDecodeError msg)) \<Rightarrow>
          t @ [StderrError ''Invalid JSON input: '' (JSONDecodeError msg), Exit 1]
      | (t, Raise e) \<Rightarrow> t @ [StderrError ''Prediction failed: '' e, Exit 1]
      | (t, Return u) \<Rightarrow> t @ [Exit 0])"

definition main :: "world \<Rightarrow> event list" where
  "main w = handle (bind_tr (read_input w) (serve w))"

text \<open>What a run wrote to standard output, and the status it ended with.\<close>

fun stdout_of :: "event list \<Rightarrow> response list" where
  "stdout_of [] = []"
| "stdout_of (Stdout doc # t) = doc # stdout_of t"
| "stdout_of (ev # t) = stdout_of t"

fun exit_status :: "event list \<Rightarrow> int option" where
  "exit_status [] = None"
| "exit_status (Exit n # t) = Some n"
| "exit_status (ev # t) = exit_status t"

fun is_load :: "event \<Rightarrow> bool" where
  "is_load (Load f) = True"
| "is_load ev = False"

fun is_scoring :: "event \<Rightarrow> bool" where
  "is_scoring Transform = True"
| "is_scoring Select = True"
| "is_scoring Predict = True"
| "is_scoring ev = False"

section \<open>Reference notions and sample data\<close>



text \<open>A small catalog and the profile of the built-in request.\<close>

definition demo_catalog :: frame where
  "demo_catalog =
     \<lparr>columns = [''description'', ''is_vegan'', ''cost_per_serving''],
      rows = [map_of [(''description'', Str ''Lentil soup''), (''is_vegan'', Num 1), (''cost_per_serving'', Num 2)],
              map_of [(''description'', Str ''Beef stew''), (''is_vegan'', Num 0), (''cost_per_serving'', Num 3)],
              map_of [(''description'', Str ''Truffle tofu''), (''is_vegan'', Num 1), (''cost_per_serving'', Num 9)]]\<rparr>"

definition demo_profile :: json where
  "demo_profile =
     JObj [(''age'', JInt 30),
           (''gender'', JStr ''Female''),
           (''primaryGoal'', JStr ''Weight Loss''),
           (''dietaryRestrictions'', JArr [JStr ''Vegan'']),
           (''weeklyBudget'', JInt 75)]"

text \<open>
  A column the program can compare with a number: it exists and holds no text
  cell.
\<close>

fun is_text :: "cell \<Rightarrow> bool" where
  "is_text (Str s) = True"
| "is_text c = False"

definition numeric_column :: "frame \<Rightarrow> string \<Rightarrow> bool" where
  "numeric_column df col =
     (col \<in> set (columns df) \<and> list_all (\<lambda>r. \<not> is_text (cell_at r col)) (rows df))"

text \<open>
  The rule table of the goal adjuster as the specification gives it: the
  multiplier of an item under a goal.
\<close>

definition rule_table_multiplier :: "json \<Rightarrow> row \<Rightarrow> real" where
  "rule_table_multiplier goal r =
     (if goal = JStr ''Weight Loss'' \<and> cell_lt (cell_at r ''calories'') 300 = Inr True
           \<and> cell_gt (cell_at r ''protein_g'') 15 = Inr True then 1.2
      else if goal = JStr ''Muscle Gain'' \<and> cell_gt (cell_at r ''protein_g'') 20 = Inr True then 1.3
      else if goal = JStr ''Heart Health'' \<and> cell_lt (cell_at r ''sodium_mg'') 500 = Inr True
           \<and> cell_gt (cell_at r ''fiber_g'') 5 = Inr True then 1.2
      else 1)"


text \<open>The scores after a boost by \<open>m\<close> of the selected entries and the clip.\<close>

definition boosted :: "real list \<Rightarrow> bool list \<Rightarrow> real \<Rightarrow> real list" where
  "boosted probs keep m = map (\<lambda>p. np_clip p 0 1) (map2 (\<lambda>p k. if k then p * m else p) probs keep)"


text \<open>Two eligible dishes with the columns the scoring reads.\<close>

definition demo_eligible :: frame where
  "demo_eligible =
     \<lparr>columns = [''description'', ''calories'', ''protein_g'', ''fat_g'', ''carbs_g'', ''fiber_g'',
                 ''sugars_g'', ''sodium_mg'', ''cost_per_serving''],
      rows = [map_of [(''description'', Str ''Tofu bowl''), (''calories'', Num 180),
                      (''protein_g'', Num 22), (''fat_g'', Num 8), (''carbs_g'', Num 9),
                      (''fiber_g'', Num 6), (''sugars_g'', Num 3), (''sodium_mg'', Num 300),
                      (''cost_per_serving'', Num 1.5)],
              map_of [(''description'', Str ''Oat porridge''), (''calories'', Num 320),
                      (''protein_g'', Num 10), (''fat_g'', Num 5), (''carbs_g'', Num 54),
                      (''fiber_g'', Num 8), (''sugars_g'', Num 12), (''sodium_mg'', Num 40),
                      (''cost_per_serving'', Num 1)]]\<rparr>"


text \<open>
  The order of a run. Each event has a phase: the request is read (0), files
  are opened (1), the preprocessor, the selector and the classifier are
  called (2, 3, 4), a document or an error object is written (5), the process
  exits (6). The artifacts' files and the catalog's, in the order the program
  opens them, and what it means for a load to fail: the file is absent, or
  loading raises another exception.
\<close>

fun phase :: "event \<Rightarrow> nat" where
  "phase ReadStdin = 0"
| "phase (StderrNotice s) = 0"
| "phase (Load f) = 1"
| "phase Transform = 2"
| "phase Select = 3"
| "phase Predict = 4"
| "phase (Stdout doc) = 5"
| "phase (StderrError p e) = 5"
| "phase (Exit n) = 6"

definition in_phases :: "nat \<Rightarrow> nat \<Rightarrow> event list \<Rightarrow> bool" where
  "in_phases lo hi t = (sorted (map phase t) \<and> list_all (\<lambda>ev. lo \<le> phase ev \<and> phase ev \<le> hi) t)"

definition model_files :: "event list" where
  "model_files = [Load ''rf_model.pkl'', Load ''preprocessor.pkl'', Load ''feature_selector.pkl'',
                  Load ''feature_names.json'']"

definition catalog_files :: "event list" where
  "catalog_files = [Load ''processed_data.csv'', Load ''usda-foods.csv'']"

fun absent :: "error + 'a \<Rightarrow> bool" where
  "absent (Inl (FileNotFoundError f)) = True"
| "absent r = False"

fun broken :: "error + 'a \<Rightarrow> bool" where
  "broken (Inl (FileNotFoundError f)) = False"
| "broken (Inl e) = True"
| "broken (Inr x) = False"



text \<open>A part of the run has failed when it raised or exited with status 1.\<close>

fun failed :: "'a outcome \<Rightarrow> bool" where
  "failed (Return x) = False"
| "failed (Raise e) = True"
| "failed (SysExit n) = (n = 1)"

fun is_output :: "event \<Rightarrow> bool" where
  "is_output (Stdout doc) = True"
| "is_output ev = False"


text \<open>
  A sample outside: the request comes through a pipe, the parser knows the
  built-in request, every file loads, the preprocessor gives calories and
  protein, the selector keeps both, the classifier scores every item one half,
  and the sort is the stable one.
\<close>

definition stable_argsort :: "real list \<Rightarrow> nat list" where
  "stable_argsort ps = sort_key (\<lambda>i. ps ! i) [0..<length ps]"

definition number_of :: "cell \<Rightarrow> real" where
  "number_of c = (case c of Num v \<Rightarrow> v | _ \<Rightarrow> 0)"

definition demo_world :: world where
  "demo_world =
     \<lparr>stdin_isatty = False,
      stdin_text = ''the built-in request'',
      json_loads = (\<lambda>s. if s = ''the built-in request'' then Inr default_input
                         else Inl (JSONDecodeError ''Expecting value'')),
      rf_model_pkl = Inr (\<lambda>X. Inr (map (\<lambda>r. 1 / 2) X)),
      preprocessor_pkl = Inr (\<lambda>X. Inr (map (\<lambda>r. [number_of (cell_at r ''calories''),
                                                   number_of (cell_at r ''protein_g'')]) (rows X))),
      feature_selector_pkl = Inr (\<lambda>X. Inr X),
      feature_names_json = Inr (JObj []),
      processed_data_csv = Inr demo_catalog,
      usda_foods_csv = Inl (FileNotFoundError ''usda-foods.csv''),
      np_argsort = stable_argsort\<rparr>"

text \<open>A stretch of a run that neither scores nor writes to standard output.\<close>

definition quiet :: "event list \<Rightarrow> bool" where
  "quiet t = list_all (\<lambda>ev. \<not> is_scoring ev \<and> \<not> is_output ev) t"




text \<open>
  A part of the run that returned a value, and an error object on standard
  error.
\<close>

fun returned :: "'a outcome \<Rightarrow> bool" where
  "returned (Return x) = True"
| "returned r = False"

fun is_error_report :: "event \<Rightarrow> bool" where
  "is_error_report (StderrError p e) = True"
| "is_error_report ev = False"

text \<open>The sample outside with a catalog of the beef stew alone.\<close>

definition no_vegan_world :: world where
  "no_vegan_world =
     demo_world\<lparr>processed_data_csv := Inr (demo_catalog\<lparr>rows := [rows demo_catalog ! 1]\<rparr>)\<rparr>"


section \<open>Properties of the constraint filter\<close>














section \<open>Properties of the goal adjuster\<close>

lemma bind_err_Inl_Inr [simp]: "bind_err (Inr x) f = f x" "bind_err (Inl e) f = Inl e"
  by (simp_all add: bind_err_def)

lemma collect_map_Inr: "collect (map Inr xs) = Inr xs"
  by (induction xs) simp_all

lemma cell_lt_total: "\<not> is_text c \<Longrightarrow> cell_lt c x = Inr (cell_lt c x = Inr True)"
  by (cases c) simp_all

lemma cell_gt_total: "\<not> is_text c \<Longrightarrow> cell_gt c x = Inr (cell_gt c x = Inr True)"
  by (cases c) simp_all

lemma collect_total: "(\<And>r. r \<in> set rs \<Longrightarrow> f r = Inr (g r)) \<Longrightarrow> collect (map f rs) = Inr (map g rs)"
  by (induction rs) simp_all

lemma compare_column_total:
  assumes "numeric_column df col" and tot: "\<And>c. \<not> is_text c \<Longrightarrow> cmp c x = Inr (cmp c x = Inr True)"
  shows "compare_column cmp df col x = Inr (map (\<lambda>r. cmp (cell_at r col) x = Inr True) (rows df))"
proof -
  from assms(1) have col: "col \<in> set (columns df)"
    and nt: "\<And>r. r \<in> set (rows df) \<Longrightarrow> \<not> is_text (cell_at r col)"
    by (auto simp: numeric_column_def list_all_iff)
  have "collect (map (\<lambda>r. cmp (cell_at r col) x) (rows df))
      = Inr (map (\<lambda>r. cmp (cell_at r col) x = Inr True) (rows df))"
    by (rule collect_total) (use nt tot in blast)
  then show ?thesis
    using col by (simp add: compare_column_def column_def bind_err_def comp_def)
qed

lemma np_clip_range: "0 \<le> np_clip x 0 1 \<and> np_clip x 0 1 \<le> 1"
  by (simp add: np_clip_def)

lemma boosted_nth:
  "length keep = length probs \<Longrightarrow> i < length probs \<Longrightarrow>
     boosted probs keep m ! i = np_clip (probs ! i * (if keep ! i then m else 1)) 0 1"
  by (simp add: boosted_def)

lemma length_boosted: "length keep = length probs \<Longrightarrow> length (boosted probs keep m) = length probs"
  by (simp add: boosted_def)

lemma clip_boost:
  "length keep = length probs \<Longrightarrow>
     bind_err (multiply_where probs keep m) (\<lambda>a. Inr (map (\<lambda>p. np_clip p 0 1) a))
       = Inr (boosted probs keep m)"
  by (simp add: multiply_where_def bind_err_def boosted_def)

lemma adjust_for_goals_cases:
  assumes goal: "dict_get user_profile ''primaryGoal'' (JStr []) = Inr goal"
    and len: "length probs = length (rows df)"
    and cal: "numeric_column df ''calories''" and pro: "numeric_column df ''protein_g''"
    and sod: "numeric_column df ''sodium_mg''" and fib: "numeric_column df ''fiber_g''"
  shows "adjust_for_goals probs df user_profile =
     Inr (boosted probs (map (\<lambda>r. rule_table_multiplier goal r \<noteq> 1) (rows df))
            (if goal = JStr ''Muscle Gain'' then 1.3 else 1.2))"
proof -
  note cc = compare_column_total[OF cal cell_lt_total] compare_column_total[OF pro cell_gt_total]
    compare_column_total[OF sod cell_lt_total] compare_column_total[OF fib cell_gt_total]
  have eq2: "map2 (\<and>) (map f rs) (map g rs) = map (\<lambda>r. f r \<and> g r) rs" for f g and rs :: "row list"
    by (induction rs) auto
  have mw: "multiply_where probs (map f (rows df)) m
     = Inr (map2 (\<lambda>p k. if k then p * m else p) probs (map f (rows df)))" for f m
    using len by (simp add: multiply_where_def)
  consider (wl) "goal = JStr ''Weight Loss''" | (mg) "goal = JStr ''Muscle Gain''"
    | (hh) "goal = JStr ''Heart Health''"
    | (other) "goal \<noteq> JStr ''Weight Loss''" "goal \<noteq> JStr ''Muscle Gain''" "goal \<noteq> JStr ''Heart Health''"
    by blast
  then show ?thesis
  proof cases
    case wl
    have "adjust_for_goals probs df user_profile
      = Inr (boosted probs (map (\<lambda>r. cell_lt (cell_at r ''calories'') 300 = Inr True
           \<and> cell_gt (cell_at r ''protein_g'') 15 = Inr True) (rows df)) 1.2)"
      unfolding adjust_for_goals_def
      by (simp add: goal wl bind_err_Inl_Inr cc eq2 clip_boost len)
    moreover have "(\<lambda>r. cell_lt (cell_at r ''calories'') 300 = Inr True
           \<and> cell_gt (cell_at r ''protein_g'') 15 = Inr True) = (\<lambda>r. rule_table_multiplier goal r \<noteq> 1)"
      by (rule ext) (simp add: rule_table_multiplier_def wl)
    ultimately show ?thesis using wl by simp
  next
    case mg
    have "adjust_for_goals probs df user_profile
      = Inr (boosted probs (map (\<lambda>r. cell_gt (cell_at r ''protein_g'') 20 = Inr True) (rows df)) 1.3)"
      unfolding adjust_for_goals_def
      by (simp add: goal mg bind_err_Inl_Inr cc clip_boost len)
    moreover have "(\<lambda>r. cell_gt (cell_at r ''protein_g'') 20 = Inr True) = (\<lambda>r. rule_table_multiplier goal r \<noteq> 1)"
      by (rule ext) (simp add: rule_table_multiplier_def mg)
    ultimately show ?thesis using mg by simp
  next
    case hh
    have "adjust_for_goals probs df user_profile
      = Inr (boosted probs (map (\<lambda>r. cell_lt (cell_at r ''sodium_mg'') 500 = Inr True
           \<and> cell_gt (cell_at r ''fiber_g'') 5 = Inr True) (rows df)) 1.2)"
      unfolding adjust_for_goals_def
      by (simp add: goal hh bind_err_Inl_Inr cc eq2 clip_boost len)
    moreover have "(\<lambda>r. cell_lt (cell_at r ''sodium_mg'') 500 = Inr True
           \<and> cell_gt (cell_at r ''fiber_g'') 5 = Inr True) = (\<lambda>r. rule_table_multiplier goal r \<noteq> 1)"
      by (rule ext) (simp add: rule_table_multiplier_def hh)
    ultimately show ?thesis using hh by simp
  next
    case other
    have "map (\<lambda>p. np_clip p 0 1) probs
        = boosted probs (map (\<lambda>r. False) (rows df)) 1.2"
      using len by (auto simp: boosted_def list_eq_iff_nth_eq)
    moreover have "(\<lambda>r. rule_table_multiplier goal r \<noteq> 1) = (\<lambda>r. False)"
      by (rule ext) (simp add: rule_table_multiplier_def other)
    ultimately show ?thesis using other
      unfolding adjust_for_goals_def
      by (simp add: goal bind_err_def)
  qed
qed

lemma rule_table_multiplier_values:
  "rule_table_multiplier goal r \<noteq> 1 \<Longrightarrow>
     rule_table_multiplier goal r = (if goal = JStr ''Muscle Gain'' then 1.3 else 1.2)"
  by (auto simp: rule_table_multiplier_def split: if_splits)


text \<open>
  Claim C2. For a profile that is a dict, a score vector as long as the
  catalog, and a catalog whose calories, protein, sodium and fiber columns
  exist and hold no text, the goal adjuster returns a vector of the same
  length whose every entry is the clip to [0, 1] of the score times the
  multiplier of the rule table (1.2 for Weight Loss with calories < 300 and
  protein > 15, 1.3 for Muscle Gain with protein > 20, 1.2 for Heart Health
  with sodium < 500 and fiber > 5, 1 otherwise); every entry lies in [0, 1]
  whatever the scores were; and a Muscle Gain item with protein 22 and a
  non-negative score gets the minimum of 1.3 times its score and 1.
\<close>

theorem adjust_for_goals_rule_table:
  assumes goal: "dict_get user_profile ''primaryGoal'' (JStr []) = Inr goal"
    and len: "length probs = length (rows df)"
    and cal: "numeric_column df ''calories''" and pro: "numeric_column df ''protein_g''"
    and sod: "numeric_column df ''sodium_mg''" and fib: "numeric_column df ''fiber_g''"
  shows "\<exists>out. adjust_for_goals probs df user_profile = Inr out \<and> length out = length probs \<and>
     (\<forall>i < length probs.
        out ! i = np_clip (probs ! i * rule_table_multiplier goal (rows df ! i)) 0 1 \<and>
        0 \<le> out ! i \<and> out ! i \<le> 1 \<and>
        (goal = JStr ''Muscle Gain'' \<and> cell_at (rows df ! i) ''protein_g'' = Num 22
           \<and> 0 \<le> probs ! i \<longrightarrow> out ! i = min (probs ! i * 1.3) 1))"
proof -
  let ?keep = "map (\<lambda>r. rule_table_multiplier goal r \<noteq> 1) (rows df)"
  let ?m = "if goal = JStr ''Muscle Gain'' then 1.3 else 1.2 :: real"
  let ?out = "boosted probs ?keep ?m"
  have res: "adjust_for_goals probs df user_profile = Inr ?out"
    by (rule adjust_for_goals_cases[OF assms])
  have lk: "length ?keep = length probs" using len by simp
  have nth: "?out ! i = np_clip (probs ! i * rule_table_multiplier goal (rows df ! i)) 0 1"
    if "i < length probs" for i
  proof -
    have "(if ?keep ! i then ?m else 1) = rule_table_multiplier goal (rows df ! i)"
      using that len rule_table_multiplier_values[of goal "rows df ! i"] by auto
    with boosted_nth[OF lk that, of ?m] show ?thesis by simp
  qed
  have mg: "?out ! i = min (probs ! i * 1.3) 1"
    if "i < length probs" "goal = JStr ''Muscle Gain''"
      "cell_at (rows df ! i) ''protein_g'' = Num 22" "0 \<le> probs ! i" for i
  proof -
    have "rule_table_multiplier goal (rows df ! i) = 1.3"
      using that by (simp add: rule_table_multiplier_def)
    with nth[OF that(1)] that(4) show ?thesis by (simp add: np_clip_def max_def)
  qed
  show ?thesis
    using res length_boosted[OF lk] nth mg np_clip_range by (intro exI[of _ ?out]) auto
qed



text \<open>
  The theorem at the two sample dishes under Muscle Gain: the dish with 22 g
  of protein and score 0.9 is boosted to 1.17 and clipped to 1.
\<close>

lemma demo_eligible_numeric:
  "numeric_column demo_eligible ''calories''" "numeric_column demo_eligible ''protein_g''"
  "numeric_column demo_eligible ''sodium_mg''" "numeric_column demo_eligible ''fiber_g''"
  by (simp_all add: numeric_column_def demo_eligible_def cell_at_def)

theorem adjust_for_goals_rule_table_witness:
  "dict_get (JObj [(''primaryGoal'', JStr ''Muscle Gain'')]) ''primaryGoal'' (JStr [])
     = Inr (JStr ''Muscle Gain'')
   \<and> length [0.9, 0.5 :: real] = length (rows demo_eligible)
   \<and> numeric_column demo_eligible ''calories'' \<and> numeric_column demo_eligible ''protein_g''
   \<and> numeric_column demo_eligible ''sodium_mg'' \<and> numeric_column demo_eligible ''fiber_g''
   \<and> cell_at (rows demo_eligible ! 0) ''protein_g'' = Num 22
   \<and> (\<exists>out. adjust_for_goals [0.9, 0.5] demo_eligible (JObj [(''primaryGoal'', JStr ''Muscle Gain'')])
          = Inr out \<and> out ! 0 = min (0.9 * 1.3) 1 \<and> out ! 0 = 1 \<and> length out = 2)"
proof -
  have g: "dict_get (JObj [(''primaryGoal'', JStr ''Muscle Gain'')]) ''primaryGoal'' (JStr [])
     = Inr (JStr ''Muscle Gain'')" by simp
  have l: "length [0.9, 0.5 :: real] = length (rows demo_eligible)"
    by (simp add: demo_eligible_def)
  have p: "cell_at (rows demo_eligible ! 0) ''protein_g'' = Num 22"
    by (simp add: demo_eligible_def cell_at_def)
  from adjust_for_goals_rule_table[OF g l demo_eligible_numeric]
  obtain out where o: "adjust_for_goals [0.9, 0.5] demo_eligible (JObj [(''primaryGoal'', JStr ''Muscle Gain'')])
          = Inr out" "length out = length [0.9, 0.5 :: real]"
     and all: "\<forall>i<length [0.9, 0.5 :: real].
        out ! i = np_clip ([0.9, 0.5] ! i * rule_table_multiplier (JStr ''Muscle Gain'') (rows demo_eligible ! i)) 0 1 \<and>
        0 \<le> out ! i \<and> out ! i \<le> 1 \<and>
        (JStr ''Muscle Gain'' = JStr ''Muscle Gain'' \<and> cell_at (rows demo_eligible ! i) ''protein_g'' = Num 22
           \<and> 0 \<le> [0.9, 0.5 :: real] ! i \<longrightarrow> out ! i = min ([0.9, 0.5] ! i * 1.3) 1)"
    by blast
  from all have "(0::nat) < length [0.9, 0.5 :: real] \<longrightarrow>
        (cell_at (rows demo_eligible ! 0) ''protein_g'' = Num 22
           \<and> 0 \<le> [0.9, 0.5 :: real] ! 0 \<longrightarrow> out ! 0 = min ([0.9, 0.5] ! 0 * 1.3) 1)"
    by blast
  with p have m: "out ! 0 = min (0.9 * 1.3) 1" by simp
  then have "out ! 0 = 1" by simp
  with m g l p o demo_eligible_numeric show ?thesis by simp
qed


section \<open>Properties of the process\<close>

lemma bind_tr_simps [simp]:
  "bind_tr (t, Return x) f = (t @ fst (f x), snd (f x))"
  "bind_tr (t, Raise e) f = (t, Raise e)"
  "bind_tr (t, SysExit n) f = (t, SysExit n)"
  by (simp_all add: bind_tr_def split: prod.splits)

lemma pure_tr_simps [simp]: "pure_tr (Inr x) = ([], Return x)" "pure_tr (Inl e) = ([], Raise e)"
  by (simp_all add: pure_tr_def)

lemma effect_simps [simp]: "effect ev (Inr x) = ([ev], Return x)" "effect ev (Inl e) = ([ev], Raise e)"
  by (simp_all add: effect_def)

lemma handle_append: "handle (a @ t, r) = a @ handle (t, r)"
  by (simp add: handle_def split: outcome.splits error.splits)

lemma handle_Cons: "handle (ev # t, r) = ev # handle (t, r)"
  using handle_append[of "[ev]" t r] by simp




section \<open>The order of a run\<close>

lemma fst_bind_tr:
  "fst (bind_tr m f) = fst m @ (case snd m of Return x \<Rightarrow> fst (f x) | Raise e \<Rightarrow> [] | SysExit n \<Rightarrow> [])"
  by (cases m; cases "snd m") auto


lemma handle_tail:
  "\<exists>tail. handle (t, r) = t @ tail \<and> tail \<noteq> [] \<and> sorted (map phase tail)
      \<and> list_all (\<lambda>ev. 5 \<le> phase ev \<and> \<not> is_load ev \<and> \<not> is_scoring ev \<and> \<not> is_output ev) tail
      \<and> exit_status tail = Some (case r of Return u \<Rightarrow> 0 | Raise e \<Rightarrow> 1 | SysExit n \<Rightarrow> n)"
  by (cases r) (auto simp: handle_def split: error.splits)

subsection \<open>Phases of a run\<close>

lemma in_phases_Nil [simp]: "in_phases a b []"
  by (simp add: in_phases_def)

lemma in_phases_single [simp]: "in_phases a b [ev] \<longleftrightarrow> a \<le> phase ev \<and> phase ev \<le> b"
  by (simp add: in_phases_def)

lemma in_phases_mono: "in_phases a b t \<Longrightarrow> a' \<le> a \<Longrightarrow> b \<le> b' \<Longrightarrow> in_phases a' b' t"
  by (auto simp: in_phases_def list_all_iff)

lemma in_phases_append:
  "in_phases a b t1 \<Longrightarrow> in_phases b c t2 \<Longrightarrow> a \<le> b \<Longrightarrow> b \<le> c \<Longrightarrow> in_phases a c (t1 @ t2)"
  by (fastforce simp: in_phases_def list_all_iff sorted_append)

lemma in_phases_bind:
  assumes "a \<le> b" "b \<le> c" "in_phases a c (fst m)"
    and "\<And>x. snd m = Return x \<Longrightarrow> in_phases a b (fst m) \<and> in_phases b c (fst (f x))"
  shows "in_phases a c (fst (bind_tr m f))"
proof (cases "snd m")
  case (Return x)
  from assms(4)[OF Return] have "in_phases a c (fst m @ fst (f x))"
    using assms(1,2) by (blast intro: in_phases_append)
  with Return show ?thesis by (simp add: fst_bind_tr)
qed (use assms(3) in \<open>simp_all add: fst_bind_tr\<close>)

lemma in_phases_bind_pure:
  assumes "\<And>x. in_phases a c (fst (f x))"
  shows "in_phases a c (fst (bind_tr (pure_tr m) f))"
  using assms by (cases m) simp_all


subsection \<open>Loading\<close>

lemma load_models_cases:
  "(\<exists>m p s i. rf_model_pkl w = Inr m \<and> preprocessor_pkl w = Inr p \<and> feature_selector_pkl w = Inr s
       \<and> feature_names_json w = Inr i \<and> load_models w = (model_files, Return (m, p, s, i)))
   \<or> (\<exists>n e. n < 4 \<and> (load_models w = (take (Suc n) model_files, Raise e)
          \<or> load_models w = (take (Suc n) model_files @
               [StderrError ''Model files not found. Run train.py first. '' e], SysExit 1))
        \<and> (rf_model_pkl w = Inl e \<or> preprocessor_pkl w = Inl e \<or> feature_selector_pkl w = Inl e
             \<or> feature_names_json w = Inl e))"
proof (cases "rf_model_pkl w")
  case (Inl e)
  then show ?thesis
    by (intro disjI2 exI[of _ 0] exI[of _ e]) (simp add: load_models_def model_files_def split: error.splits)
next
  case m: (Inr m)
  show ?thesis
  proof (cases "preprocessor_pkl w")
    case (Inl e)
    with m show ?thesis
      by (intro disjI2 exI[of _ 1] exI[of _ e])
         (simp add: load_models_def model_files_def split: error.splits)
  next
    case p: (Inr p)
    show ?thesis
    proof (cases "feature_selector_pkl w")
      case (Inl e)
      with m p show ?thesis
        by (intro disjI2 exI[of _ 2] exI[of _ e])
           (simp add: load_models_def model_files_def split: error.splits)
    next
      case s: (Inr s)
      show ?thesis
      proof (cases "feature_names_json w")
        case (Inl e)
        with m p s show ?thesis
          by (intro disjI2 exI[of _ 3] exI[of _ e])
             (simp add: load_models_def model_files_def split: error.splits)
      next
        case (Inr i)
        with m p s show ?thesis
          by (intro disjI1) (simp add: load_models_def model_files_def)
      qed
    qed
  qed
qed

lemma load_food_database_cases:
  "(\<exists>db. processed_data_csv w = Inr db
       \<and> load_food_database w = (take 1 catalog_files, Return db))
   \<or> (\<exists>db. absent (processed_data_csv w) \<and> usda_foods_csv w = Inr db
       \<and> load_food_database w = (catalog_files, Return db))
   \<or> (\<exists>e. broken (processed_data_csv w) \<and> load_food_database w = (take 1 catalog_files, Raise e))
   \<or> (\<exists>e. absent (processed_data_csv w) \<and> usda_foods_csv w = Inl e
       \<and> (load_food_database w = (catalog_files, Raise e)
          \<or> load_food_database w = (catalog_files @ [StderrError ''Food database not found: '' e],
                SysExit 1)))"
proof (cases "processed_data_csv w")
  case (Inr db)
  then show ?thesis by (simp add: load_food_database_def catalog_files_def)
next
  case p: (Inl e)
  show ?thesis
  proof (cases "absent (processed_data_csv w)")
    case False
    with p show ?thesis
      by (cases e) (simp_all add: load_food_database_def catalog_files_def)
  next
    case True
    with p obtain f where e: "e = FileNotFoundError f" by (cases e) simp_all
    show ?thesis
    proof (cases "usda_foods_csv w")
      case (Inr db)
      with p e show ?thesis by (simp add: load_food_database_def catalog_files_def)
    next
      case (Inl e')
      with p e show ?thesis
        by (cases e') (simp_all add: load_food_database_def catalog_files_def)
    qed
  qed
qed

lemma in_phases_load_models:
  "in_phases 1 5 (fst (load_models w))"
  "snd (load_models w) = Return x \<Longrightarrow> in_phases 1 1 (fst (load_models w))"
  by (cases "rf_model_pkl w"; cases "preprocessor_pkl w"; cases "feature_selector_pkl w";
      cases "feature_names_json w";
      simp add: load_models_def in_phases_def split: error.splits)+

lemma in_phases_load_food_database:
  "in_phases 1 5 (fst (load_food_database w))"
  "snd (load_food_database w) = Return x \<Longrightarrow> in_phases 1 1 (fst (load_food_database w))"
  by (cases "processed_data_csv w"; cases "usda_foods_csv w";
      simp add: load_food_database_def in_phases_def split: error.splits)+


subsection \<open>Serving the request\<close>

lemma in_phases_infer: "in_phases 2 4 (fst (infer pre sel model df))"
proof -
  have "in_phases 2 4 (fst (bind_tr (effect Transform (pre X)) (\<lambda>Xt.
          bind_tr (pure_tr (nonneg_shift Xt)) (\<lambda>Xn.
          bind_tr (effect Select (sel Xn)) (\<lambda>Xs. effect Predict (model Xs))))))" for X
  proof (cases "pre X")
    case (Inl e) then show ?thesis by simp
  next
    case Xt: (Inr Xt)
    show ?thesis
    proof (cases "nonneg_shift Xt")
      case (Inl e) with Xt show ?thesis by simp
    next
      case Xn: (Inr Xn)
      show ?thesis
      proof (cases "sel Xn")
        case (Inl e) with Xt Xn show ?thesis by (simp add: in_phases_def)
      next
        case (Inr Xs)
        with Xt Xn show ?thesis by (cases "model Xs") (simp_all add: in_phases_def)
      qed
    qed
  qed
  then show ?thesis unfolding infer_def by (rule in_phases_bind_pure)
qed

lemma in_phases_recommend:
  "in_phases 2 4 (fst (recommend argsort model pre sel food_db req k))"
proof -
  have rest: "in_phases 2 4 (fst (bind_tr (pure_tr (ensure_columns el)) (\<lambda>eligible.
       bind_tr (infer pre sel model eligible) (\<lambda>raw.
       bind_tr (pure_tr (adjust_for_goals raw eligible profile)) (\<lambda>probs.
       pure_tr (rank_and_explain argsort eligible probs k query profile))))))" for el profile query
  proof (rule in_phases_bind_pure, rule in_phases_bind[where b=4])
    fix eligible
    show "(2::nat) \<le> 4" "(4::nat) \<le> 4" by simp_all
    show "in_phases 2 4 (fst (infer pre sel model eligible))" by (rule in_phases_infer)
    fix raw
    have "in_phases 4 4 (fst (bind_tr (pure_tr (adjust_for_goals raw eligible profile)) (\<lambda>probs.
       pure_tr (rank_and_explain argsort eligible probs k query profile))))"
      by (rule in_phases_bind_pure) (simp add: pure_tr_def)
    then show "in_phases 2 4 (fst (infer pre sel model eligible)) \<and>
       in_phases 4 4 (fst (bind_tr (pure_tr (adjust_for_goals raw eligible profile)) (\<lambda>probs.
       pure_tr (rank_and_explain argsort eligible probs k query profile))))"
      using in_phases_infer by blast
  qed
  show ?thesis
    unfolding recommend_def
    by (intro in_phases_bind_pure) (simp add: rest)
qed

lemma in_phases_predict_top_meals: "in_phases 1 5 (fst (predict_top_meals w req k))"
  unfolding predict_top_meals_def
proof (rule in_phases_bind[where b=1], simp, simp, rule in_phases_load_models(1), intro conjI)
  fix x assume r: "snd (load_models w) = Return x"
  show "in_phases 1 1 (fst (load_models w))" by (rule in_phases_load_models(2)[OF r])
  obtain model pre sel info where x: "x = (model, pre, sel, info)" by (cases x) auto
  have "in_phases 1 5 (fst (bind_tr (load_food_database w) (\<lambda>food_db.
          recommend (np_argsort w) model pre sel food_db req k)))"
  proof (rule in_phases_bind[where b=1], simp, simp, rule in_phases_load_food_database(1), intro conjI)
    fix db assume d: "snd (load_food_database w) = Return db"
    show "in_phases 1 1 (fst (load_food_database w))" by (rule in_phases_load_food_database(2)[OF d])
    show "in_phases 1 5 (fst (recommend (np_argsort w) model pre sel db req k))"
      by (rule in_phases_mono[OF in_phases_recommend]) simp_all
  qed
  then show "in_phases 1 5 (fst (case x of (model, preprocessor, feature_selector, feature_info) \<Rightarrow>
      bind_tr (load_food_database w) (\<lambda>food_db.
        recommend (np_argsort w) model preprocessor feature_selector food_db req k)))"
    by (simp add: x)
qed

lemma in_phases_serve: "in_phases 1 5 (fst (serve w req))"
  unfolding serve_def
proof (rule in_phases_bind_pure, rule in_phases_bind[where b=5], simp, simp,
    rule in_phases_predict_top_meals, intro conjI)
  fix k x
  show "in_phases 1 5 (fst (predict_top_meals w req k))" by (rule in_phases_predict_top_meals)
  show "in_phases 5 5 (fst ([Stdout x], SysExit 0 :: unit outcome))" by simp
qed





subsection \<open>What a trace holds\<close>

lemma stdout_of_append: "stdout_of (a @ b) = stdout_of a @ stdout_of b"
  by (induction a rule: stdout_of.induct) simp_all



lemma in_phases_upto:
  assumes "in_phases a b t"
  shows "b \<le> 5 \<Longrightarrow> list_all (\<lambda>ev. phase ev \<le> 5) t"
    and "b \<le> 4 \<Longrightarrow> list_all (\<lambda>ev. \<not> is_output ev) t"
    and "b \<le> 1 \<Longrightarrow> list_all (\<lambda>ev. \<not> is_scoring ev) t"
    and "2 \<le> a \<Longrightarrow> filter is_load t = []"
    and "1 \<le> a \<Longrightarrow> ReadStdin \<notin> set t"
proof -
  have p: "\<And>ev. ev \<in> set t \<Longrightarrow> a \<le> phase ev \<and> phase ev \<le> b"
    using assms by (simp add: in_phases_def list_all_iff)
  show "b \<le> 5 \<Longrightarrow> list_all (\<lambda>ev. phase ev \<le> 5) t"
    using p by (fastforce simp: list_all_iff)
  show "b \<le> 4 \<Longrightarrow> list_all (\<lambda>ev. \<not> is_output ev) t"
    unfolding list_all_iff
  proof
    fix ev assume "b \<le> 4" "ev \<in> set t"
    with p[of ev] show "\<not> is_output ev" by (cases ev) simp_all
  qed
  show "b \<le> 1 \<Longrightarrow> list_all (\<lambda>ev. \<not> is_scoring ev) t"
    unfolding list_all_iff
  proof
    fix ev assume "b \<le> 1" "ev \<in> set t"
    with p[of ev] show "\<not> is_scoring ev" by (cases ev) simp_all
  qed
  show "2 \<le> a \<Longrightarrow> filter is_load t = []"
    unfolding filter_empty_conv
  proof
    fix ev assume "2 \<le> a" "ev \<in> set t"
    with p[of ev] show "\<not> is_load ev" by (cases ev) simp_all
  qed
  show "1 \<le> a \<Longrightarrow> ReadStdin \<notin> set t"
  proof
    assume "1 \<le> a" "ReadStdin \<in> set t"
    with p[of ReadStdin] show False by simp
  qed
qed

subsection \<open>Files are opened once, in order\<close>







subsection \<open>A failed load\<close>




lemma broken_absent: "broken (Inl e) \<or> absent (Inl e)"
  by (cases e) simp_all



lemma quiet_append [simp]: "quiet (a @ b) \<longleftrightarrow> quiet a \<and> quiet b"
  by (simp add: quiet_def)












section \<open>The built-in request\<close>

lemma load_models_stdin_irrelevant:
  "load_models (w\<lparr>stdin_isatty := b, stdin_text := s, json_loads := j\<rparr>) = load_models w"
  by (simp add: load_models_def cong: prod.case_cong outcome.case_cong error.case_cong)

lemma load_food_database_stdin_irrelevant:
  "load_food_database (w\<lparr>stdin_isatty := b, stdin_text := s, json_loads := j\<rparr>) = load_food_database w"
  by (simp add: load_food_database_def cong: sum.case_cong error.case_cong)

lemma serve_stdin_irrelevant:
  "serve (w\<lparr>stdin_isatty := b, stdin_text := s, json_loads := j\<rparr>) req = serve w req"
  by (simp add: serve_def predict_top_meals_def load_models_stdin_irrelevant
      load_food_database_stdin_irrelevant)

lemma main_tty: "stdin_isatty w \<Longrightarrow>
   main w = StderrNotice ''No input provided. Using test data...'' # handle (serve w default_input)"
  by (simp add: main_def read_input_def handle_Cons)

lemma main_piped: "\<not> stdin_isatty w \<Longrightarrow> json_loads w (stdin_text w) = Inr req \<Longrightarrow>
   main w = ReadStdin # handle (serve w req)"
  by (simp add: main_def read_input_def handle_Cons)

lemma handle_serve_no_read: "ReadStdin \<notin> set (handle (serve w req))"
proof -
  obtain t r where s: "serve w req = (t, r)" by (cases "serve w req")
  with in_phases_serve[of w req] have "in_phases 1 5 t" by simp
  then have a: "ReadStdin \<notin> set t" by (rule in_phases_upto(5)) simp
  from handle_tail[of t r] obtain tail where h: "handle (t, r) = t @ tail"
    and l: "list_all (\<lambda>ev. 5 \<le> phase ev) tail"
    by (auto simp: list_all_iff)
  from l have "ReadStdin \<notin> set tail" by (auto simp: list_all_iff)
  with a h s show ?thesis by simp
qed

text \<open>
  Claim C10. When standard input is a terminal, the run starts with the notice
  on standard error and goes on as the run of the built-in request does: it
  never reads standard input, and what follows the notice is what follows the
  reading of standard input in a run whose piped text parses to the built-in
  request. The built-in request asks for 5 items for the goal
  \<open>Weight Loss\<close>, the restrictions \<open>[Vegan]\<close> and a weekly budget of 75.
\<close>

theorem terminal_uses_default_request:
  assumes "stdin_isatty w"
  shows "main w = StderrNotice ''No input provided. Using test data...'' # handle (serve w default_input)
    \<and> ReadStdin \<notin> set (main w)
    \<and> (\<forall>s j. j s = Inr default_input \<longrightarrow>
          main (w\<lparr>stdin_isatty := False, stdin_text := s, json_loads := j\<rparr>)
            = ReadStdin # handle (serve w default_input))
    \<and> dict_get default_input ''top_k'' (JInt 5) = Inr (JInt 5)
    \<and> (\<exists>profile. dict_get default_input ''userProfile'' (JObj []) = Inr profile
          \<and> dict_get profile ''primaryGoal'' (JStr []) = Inr (JStr ''Weight Loss'')
          \<and> dict_get profile ''dietaryRestrictions'' (JArr []) = Inr (JArr [JStr ''Vegan''])
          \<and> dict_get profile ''weeklyBudget'' (JInt 100) = Inr (JInt 75))"
proof -
  have p: "main (w\<lparr>stdin_isatty := False, stdin_text := s, json_loads := j\<rparr>)
            = ReadStdin # handle (serve w default_input)" if "j s = Inr default_input" for s j
    using main_piped[of "w\<lparr>stdin_isatty := False, stdin_text := s, json_loads := j\<rparr>" default_input] that
    by (simp add: serve_stdin_irrelevant)
  show ?thesis
    using main_tty[OF assms] handle_serve_no_read[of w default_input] p
    by (simp add: default_input_def)
qed

text \<open>The theorem at the sample outside, on a terminal and through the pipe.\<close>

theorem terminal_uses_default_request_witness:
  "stdin_isatty (demo_world\<lparr>stdin_isatty := True\<rparr>)
   \<and> main (demo_world\<lparr>stdin_isatty := True\<rparr>)
       = StderrNotice ''No input provided. Using test data...''
           # handle (serve (demo_world\<lparr>stdin_isatty := True\<rparr>) default_input)
   \<and> ReadStdin \<notin> set (main (demo_world\<lparr>stdin_isatty := True\<rparr>))
   \<and> main demo_world = ReadStdin # handle (serve (demo_world\<lparr>stdin_isatty := True\<rparr>) default_input)"
proof -
  have a: "stdin_isatty (demo_world\<lparr>stdin_isatty := True\<rparr>)" by simp
  have j: "json_loads demo_world (stdin_text demo_world) = Inr default_input"
    by (simp add: demo_world_def)
  have e: "demo_world\<lparr>stdin_isatty := True\<rparr>\<lparr>stdin_isatty := False, stdin_text := stdin_text demo_world,
      json_loads := json_loads demo_world\<rparr> = demo_world"
    by (simp add: demo_world_def)
  note t = terminal_uses_default_request[OF a]
  from t have m: "main (demo_world\<lparr>stdin_isatty := True\<rparr>)
       = StderrNotice ''No input provided. Using test data...''
           # handle (serve (demo_world\<lparr>stdin_isatty := True\<rparr>) default_input)"
    and n: "ReadStdin \<notin> set (main (demo_world\<lparr>stdin_isatty := True\<rparr>))"
    and p: "\<forall>s j. j s = Inr default_input \<longrightarrow>
          main (demo_world\<lparr>stdin_isatty := True\<rparr>\<lparr>stdin_isatty := False, stdin_text := s, json_loads := j\<rparr>)
            = ReadStdin # handle (serve (demo_world\<lparr>stdin_isatty := True\<rparr>) default_input)"
    by blast+
  from p j have "main (demo_world\<lparr>stdin_isatty := True\<rparr>\<lparr>stdin_isatty := False,
      stdin_text := stdin_text demo_world, json_loads := json_loads demo_world\<rparr>)
            = ReadStdin # handle (serve (demo_world\<lparr>stdin_isatty := True\<rparr>) default_input)"
    by blast
  then have "main demo_world
       = ReadStdin # handle (serve (demo_world\<lparr>stdin_isatty := True\<rparr>) default_input)"
    by (simp only: e)
  with a m n show ?thesis by blast
qed


section \<open>No eligible item\<close>

lemma dict_get_dict: "dict_get j k d = Inr v \<Longrightarrow> \<exists>v'. dict_get j k' d' = Inr v'"
  by (cases j) simp_all

lemma read_input_trace: "fst (read_input w) = [ReadStdin] \<or> (\<exists>s. fst (read_input w) = [StderrNotice s])"
  by (cases "json_loads w (stdin_text w)") (simp_all add: read_input_def)

lemma loaded_traces:
  "snd (load_models w) = Return a \<Longrightarrow> fst (load_models w) = model_files"
  "snd (load_food_database w) = Return db \<Longrightarrow>
     fst (load_food_database w) = take 1 catalog_files \<or> fst (load_food_database w) = catalog_files"
   apply (cases "rf_model_pkl w"; cases "preprocessor_pkl w"; cases "feature_selector_pkl w";
      cases "feature_names_json w";
      simp add: load_models_def model_files_def split: error.splits)
  apply (cases "processed_data_csv w"; cases "usda_foods_csv w";
      simp add: load_food_database_def catalog_files_def split: error.splits)
  done

text \<open>
  Claim C4. When the request is read, the artifacts and the catalog load, the
  request is a dict and the filter leaves no row, the run is: the reading of
  the request, the loads, the document with an empty list of recommendations
  and the guidance message on standard output, exit with status 0. The message
  is not empty and no error object is written.
\<close>

theorem no_eligible_items_response:
  assumes ri: "snd (read_input w) = Return user_input"
    and tk: "dict_get user_input ''top_k'' (JInt 5) = Inr top_k"
    and lm: "returned (snd (load_models w))"
    and lf: "snd (load_food_database w) = Return food_db"
    and up: "dict_get user_input ''userProfile'' (JObj []) = Inr user_profile"
    and fl: "filter_by_user_constraints food_db user_profile = Inr eligible"
    and em: "rows eligible = []"
  shows "main w = fst (read_input w) @ fst (load_models w) @ fst (load_food_database w)
            @ [Stdout (NoEligible no_eligible_message), Exit 0]
    \<and> stdout_of (main w) = [NoEligible no_eligible_message]
    \<and> recommendations (NoEligible no_eligible_message) = []
    \<and> no_eligible_message \<noteq> []
    \<and> exit_status (main w) = Some 0
    \<and> list_all (\<lambda>ev. \<not> is_error_report ev) (main w)"
proof -
  from lm obtain artifacts where lm: "snd (load_models w) = Return artifacts"
    by (cases "snd (load_models w)") simp_all
  obtain model pre sel info where a: "artifacts = (model, pre, sel, info)" by (cases artifacts) auto
  from dict_get_dict[OF tk] obtain q where q: "dict_get user_input ''query'' (JStr []) = Inr q"
    by blast
  have rec: "recommend (np_argsort w) model pre sel food_db user_input top_k
      = ([], Return (NoEligible no_eligible_message))"
    by (simp add: recommend_def up q fl em)
  have pr: "predict_top_meals w user_input top_k
      = (fst (load_models w) @ fst (load_food_database w), Return (NoEligible no_eligible_message))"
    using lm lf rec a
    by (cases "load_models w"; cases "load_food_database w") (simp add: predict_top_meals_def)
  have sv: "serve w user_input = (fst (load_models w) @ fst (load_food_database w)
      @ [Stdout (NoEligible no_eligible_message)], SysExit 0)"
    by (simp add: serve_def tk pr)
  have m: "main w = fst (read_input w) @ fst (load_models w) @ fst (load_food_database w)
            @ [Stdout (NoEligible no_eligible_message), Exit 0]"
    using ri sv by (cases "read_input w") (simp add: main_def handle_def)
  note t = read_input_trace[of w] loaded_traces(1)[OF lm] loaded_traces(2)[OF lf]
  have so: "stdout_of (main w) = [NoEligible no_eligible_message]"
    using t by (auto simp: m model_files_def catalog_files_def stdout_of_append)
  have es: "exit_status (main w) = Some 0"
    using t by (auto simp: m model_files_def catalog_files_def)
  have er: "list_all (\<lambda>ev. \<not> is_error_report ev) (main w)"
    using t by (auto simp: m model_files_def catalog_files_def)
  show ?thesis using m so es er by (simp add: no_eligible_message_def)
qed

lemma no_vegan_facts:
  "snd (read_input no_vegan_world) = Return default_input"
  "dict_get default_input ''top_k'' (JInt 5) = Inr (JInt 5)"
  "snd (load_food_database no_vegan_world) = Return (demo_catalog\<lparr>rows := [rows demo_catalog ! 1]\<rparr>)"
  "dict_get default_input ''userProfile'' (JObj []) = Inr demo_profile'"
  "filter_by_user_constraints (demo_catalog\<lparr>rows := [rows demo_catalog ! 1]\<rparr>) demo_profile'
     = Inr (demo_catalog\<lparr>rows := []\<rparr>)"
  "rows (demo_catalog\<lparr>rows := []\<rparr>) = []"
  if "demo_profile' = JObj [(''age'', JInt 30), (''gender'', JStr ''Female''),
                    (''primaryGoal'', JStr ''Weight Loss''),
                    (''dietaryRestrictions'', JArr [JStr ''Vegan'']),
                    (''weeklyBudget'', JInt 75)]"
  using that
  by (simp_all add: no_vegan_world_def demo_world_def read_input_def load_food_database_def
      default_input_def filter_by_user_constraints_def demo_catalog_def
      max_cost_per_serving_def restrict_flag_def in_either_def bind_err_def
      select_rows_def compare_column_def column_def cell_at_def)


text \<open>The theorem at the sample outside whose catalog holds no vegan dish.\<close>

theorem no_eligible_items_response_witness:
  "snd (read_input no_vegan_world) = Return default_input
   \<and> dict_get default_input ''top_k'' (JInt 5) = Inr (JInt 5)
   \<and> returned (snd (load_models no_vegan_world))
   \<and> snd (load_food_database no_vegan_world) = Return (demo_catalog\<lparr>rows := [rows demo_catalog ! 1]\<rparr>)
   \<and> filter_by_user_constraints (demo_catalog\<lparr>rows := [rows demo_catalog ! 1]\<rparr>) demo_profile
        = Inr (demo_catalog\<lparr>rows := []\<rparr>)
   \<and> main no_vegan_world = ReadStdin # model_files
        @ [Load ''processed_data.csv'', Stdout (NoEligible no_eligible_message), Exit 0]
   \<and> stdout_of (main no_vegan_world) = [NoEligible no_eligible_message]
   \<and> exit_status (main no_vegan_world) = Some 0"
proof -
  have p: "demo_profile = JObj [(''age'', JInt 30), (''gender'', JStr ''Female''),
                    (''primaryGoal'', JStr ''Weight Loss''),
                    (''dietaryRestrictions'', JArr [JStr ''Vegan'']),
                    (''weeklyBudget'', JInt 75)]"
    by (simp add: demo_profile_def)
  note f = no_vegan_facts[OF p]
  have lm: "returned (snd (load_models no_vegan_world))"
    by (simp add: no_vegan_world_def demo_world_def load_models_def)
  have tr: "fst (read_input no_vegan_world) = [ReadStdin]"
    "fst (load_models no_vegan_world) = model_files"
    "fst (load_food_database no_vegan_world) = [Load ''processed_data.csv'']"
    by (simp_all add: no_vegan_world_def demo_world_def read_input_def load_models_def
        load_food_database_def model_files_def)
  note r = no_eligible_items_response[OF f(1) f(2) lm f(3) f(4) f(5) f(6)]
  from r have m: "main no_vegan_world = fst (read_input no_vegan_world)
      @ fst (load_models no_vegan_world) @ fst (load_food_database no_vegan_world)
      @ [Stdout (NoEligible no_eligible_message), Exit 0]"
    and so: "stdout_of (main no_vegan_world) = [NoEligible no_eligible_message]"
    and es: "exit_status (main no_vegan_world) = Some 0"
    by blast+
  from m have m': "main no_vegan_world = ReadStdin # model_files
        @ [Load ''processed_data.csv'', Stdout (NoEligible no_eligible_message), Exit 0]"
    by (simp only: tr append_Cons append_Nil)
  from f(1) f(2) lm f(3) f(5) m' so es show ?thesis by (intro conjI)
qed


section \<open>Properties of the non-negative shift\<close>

lemma matrix_min_Min:
  assumes "concat X \<noteq> []"
  shows "matrix_min X = Inr (Min (set (concat X)))"
proof -
  from assms obtain a list where c: "concat X = a # list" by (cases "concat X") auto
  have "fold min list a = Min (set (concat X))"
    using Min.set_eq_fold[of a list] by (simp only: c)
  then show ?thesis by (simp add: matrix_min_def c)
qed

lemma epsilon_pos: "0 < epsilon"
  by (simp add: epsilon_def)

lemma shift_single: "nonneg_shift [[a]] = Inr [[epsilon]]"
  by (simp add: nonneg_shift_def matrix_min_def bind_err_def)

text \<open>
  Claim C9. For a transformed matrix with at least one entry the shift
  succeeds and subtracts from every entry the least entry of that same matrix
  and adds \<open>epsilon\<close>, which is \<open>1e-9\<close>. The shape is kept, every entry of
  the result is at least \<open>epsilon\<close> and so positive, and \<open>epsilon\<close> itself is
  among them. No number fixed beforehand is what the shift subtracts from every
  matrix.
\<close>

theorem nonneg_shift_batch_minimum:
  assumes "concat X \<noteq> []"
  shows "nonneg_shift X = Inr (map (map (\<lambda>x. x - Min (set (concat X)) + epsilon)) X)
    \<and> Min (set (concat X)) \<in> set (concat X)
    \<and> (\<forall>Y. nonneg_shift X = Inr Y \<longrightarrow>
          length Y = length X \<and> map length Y = map length X
          \<and> (\<forall>y\<in>set (concat Y). epsilon \<le> y \<and> 0 < y)
          \<and> epsilon \<in> set (concat Y))
    \<and> epsilon = 1 / 1000000000
    \<and> (\<nexists>c. \<forall>Z. concat Z \<noteq> [] \<longrightarrow> nonneg_shift Z = Inr (map (map (\<lambda>x. x - c + epsilon)) Z))"
proof -
  let ?m = "Min (set (concat X))"
  let ?Y = "map (map (\<lambda>x. x - ?m + epsilon)) X"
  have s: "nonneg_shift X = Inr ?Y"
    using assms by (simp add: nonneg_shift_def matrix_min_Min bind_err_def)
  have m: "?m \<in> set (concat X)"
    using assms by (intro Min_in) simp_all
  have c: "concat ?Y = map (\<lambda>x. x - ?m + epsilon) (concat X)"
    by (simp add: map_concat)
  have lo: "epsilon \<le> y \<and> 0 < y" if "y \<in> set (concat ?Y)" for y
  proof -
    from that c obtain x where x: "x \<in> set (concat X)" and y: "y = x - ?m + epsilon" by auto
    from x have "?m \<le> x" by (intro Min_le) simp_all
    with y epsilon_pos show ?thesis by simp
  qed
  have hit: "epsilon \<in> set (concat ?Y)"
  proof -
    from m have "?m - ?m + epsilon \<in> (\<lambda>x. x - ?m + epsilon) ` set (concat X)" by (rule imageI)
    then have "epsilon \<in> set (map (\<lambda>x. x - ?m + epsilon) (concat X))"
      by (simp only: set_map diff_self add_0)
    then show ?thesis by (simp only: c)
  qed
  have nc: "\<nexists>c. \<forall>Z. concat Z \<noteq> [] \<longrightarrow> nonneg_shift Z = Inr (map (map (\<lambda>x. x - c + epsilon)) Z)"
  proof
    assume "\<exists>c. \<forall>Z. concat Z \<noteq> [] \<longrightarrow> nonneg_shift Z = Inr (map (map (\<lambda>x. x - c + epsilon)) Z)"
    then obtain c where a: "\<And>Z. concat Z \<noteq> [] \<Longrightarrow> nonneg_shift Z = Inr (map (map (\<lambda>x. x - c + epsilon)) Z)"
      by blast
    from a[of "[[c + 1]]"] shift_single[of "c + 1"] show False by simp
  qed
  have l1: "length ?Y = length X" by simp
  have l2: "map length ?Y = map length X" by (simp add: comp_def)
  from lo have l3: "\<forall>y\<in>set (concat ?Y). epsilon \<le> y \<and> 0 < y" by blast
  have every: "\<forall>Y. nonneg_shift X = Inr Y \<longrightarrow>
          length Y = length X \<and> map length Y = map length X
          \<and> (\<forall>y\<in>set (concat Y). epsilon \<le> y \<and> 0 < y)
          \<and> epsilon \<in> set (concat Y)"
  proof (intro allI impI)
    fix Y assume "nonneg_shift X = Inr Y"
    with s have Y: "Y = ?Y" by simp
    from l1 l2 l3 hit
    show "length Y = length X \<and> map length Y = map length X
          \<and> (\<forall>y\<in>set (concat Y). epsilon \<le> y \<and> 0 < y)
          \<and> epsilon \<in> set (concat Y)"
      unfolding Y by (intro conjI)
  qed
  have e: "epsilon = 1 / 1000000000" by (simp add: epsilon_def)
  from s m every e nc show ?thesis by (intro conjI)
qed

text \<open>
  The theorem at two matrices of two rows: the first has the least entry \<open>-2\<close>,
  the second \<open>3\<close>, and the entry \<open>3\<close> and the entry \<open>5\<close> they share are shifted
  differently.
\<close>

theorem nonneg_shift_batch_minimum_witness:
  "concat [[3, - 2], [5, 0 :: real]] \<noteq> []
   \<and> nonneg_shift [[3, - 2], [5, 0]] = Inr [[5 + epsilon, epsilon], [7 + epsilon, 2 + epsilon]]
   \<and> nonneg_shift [[3, 4], [5, 6]] = Inr [[epsilon, 1 + epsilon], [2 + epsilon, 3 + epsilon]]"
proof -
  have a: "concat [[3, - 2], [5, 0 :: real]] \<noteq> []" by simp
  have b: "concat [[3, 4], [5, 6 :: real]] \<noteq> []" by simp
  from nonneg_shift_batch_minimum[OF a] have "nonneg_shift [[3, - 2], [5, 0]]
      = Inr (map (map (\<lambda>x. x - Min (set (concat [[3, - 2], [5, 0 :: real]])) + epsilon)) [[3, - 2], [5, 0]])"
    by blast
  then have c: "nonneg_shift [[3, - 2], [5, 0]] = Inr [[5 + epsilon, epsilon], [7 + epsilon, 2 + epsilon]]"
    by simp
  from nonneg_shift_batch_minimum[OF b] have "nonneg_shift [[3, 4], [5, 6]]
      = Inr (map (map (\<lambda>x. x - Min (set (concat [[3, 4], [5, 6 :: real]])) + epsilon)) [[3, 4], [5, 6]])"
    by blast
  then have d: "nonneg_shift [[3, 4], [5, 6]] = Inr [[epsilon, 1 + epsilon], [2 + epsilon, 3 + epsilon]]"
    by simp
  from a c d show ?thesis by (intro conjI)
qed


end
